theory Spec2Isabelle
  imports Complex_Main
begin

section \<open>JavaScript values used by the screens\<close>

text \<open>
  Strings are lists of code units below 256. A string is falsy exactly when it is empty;
  \<open>null\<close> and \<open>undefined\<close> are \<open>None\<close>. Numbers are exact rationals together with
  \<open>NaN\<close> and the two infinities (\<open>Infinity True\<close> is the negative one): the rounding
  error of IEEE doubles is outside the model.
\<close>

definition truthy :: "string option \<Rightarrow> bool" where
  "truthy v = (case v of None \<Rightarrow> False | Some s \<Rightarrow> s \<noteq> [])"

definition is_ws :: "char \<Rightarrow> bool" where
  "is_ws c = ((of_char c :: nat) \<in> {9, 10, 11, 12, 13, 32, 160})"

definition trim :: "string \<Rightarrow> string" where
  "trim s = rev (dropWhile is_ws (rev (dropWhile is_ws s)))"

datatype number = NaN | Infinity bool | Num rat

definition is_digit :: "char \<Rightarrow> bool" where
  "is_digit c = (48 \<le> (of_char c :: nat) \<and> (of_char c :: nat) \<le> 57)"

definition is_hex_digit :: "char \<Rightarrow> bool" where
  "is_hex_digit c = (is_digit c \<or> (97 \<le> (of_char c :: nat) \<and> (of_char c :: nat) \<le> 102)
     \<or> (65 \<le> (of_char c :: nat) \<and> (of_char c :: nat) \<le> 70))"

definition digit_value :: "char \<Rightarrow> nat" where
  "digit_value c = (let n = of_char c in
     if n \<le> 57 then n - 48 else if 97 \<le> n then n - 87 else n - 55)"

definition digits_value :: "nat \<Rightarrow> string \<Rightarrow> nat" where
  "digits_value radix ds = foldl (\<lambda>a c. a * radix + digit_value c) 0 ds"

definition strip_sign :: "string \<Rightarrow> bool \<times> string" where
  "strip_sign s = (case s of
       c # cs \<Rightarrow> if c = CHR ''-'' then (True, cs) else if c = CHR ''+'' then (False, cs) else (False, s)
     | [] \<Rightarrow> (False, s))"

text \<open>
  \<open>parseInt(string)\<close> without a radix: leading white space is skipped, a sign is read,
  a prefix \<open>0x\<close> or \<open>0X\<close> selects radix 16, and the longest prefix of digits is the value;
  with no digit the result is \<open>NaN\<close>.
\<close>

definition parseInt :: "string \<Rightarrow> number" where
  "parseInt input =
     (let (neg, s) = strip_sign (dropWhile is_ws input);
          hex = (take 2 s = ''0x'' \<or> take 2 s = ''0X'');
          z = (if hex then takeWhile is_hex_digit (drop 2 s) else takeWhile is_digit s);
          v = of_nat (digits_value (if hex then 16 else 10) z)
      in if z = [] then NaN else Num (if neg then - v else v))"

text \<open>
  \<open>parseFloat(string)\<close>: leading white space is skipped and the longest prefix that is a
  decimal literal (sign, \<open>Infinity\<close>, or digits with an optional fraction and an optional
  exponent) is the value; with no such prefix the result is \<open>NaN\<close>.
\<close>

definition exponent_part :: "string \<Rightarrow> (bool \<times> nat) option" where
  "exponent_part s = (case s of
       c # cs \<Rightarrow>
         if c = CHR ''e'' \<or> c = CHR ''E'' then
           (let (neg, r) = strip_sign cs; ds = takeWhile is_digit r
            in if ds = [] then None else Some (neg, digits_value 10 ds))
         else None
     | [] \<Rightarrow> None)"

definition parseFloat :: "string \<Rightarrow> number" where
  "parseFloat input =
     (let (neg, s) = strip_sign (dropWhile is_ws input) in
      if take 8 s = ''Infinity'' then Infinity neg
      else
        let ip = takeWhile is_digit s;
            r1 = dropWhile is_digit s;
            dot = (r1 \<noteq> [] \<and> hd r1 = CHR ''.'');
            fp = (if dot then takeWhile is_digit (tl r1) else []);
            r2 = (if dot then dropWhile is_digit (tl r1) else r1);
            m = (of_nat (digits_value 10 (ip @ fp)) :: rat) / 10 ^ length fp;
            v = (case exponent_part r2 of
                   None \<Rightarrow> m
                 | Some (eneg, e) \<Rightarrow> if eneg then m / 10 ^ e else m * 10 ^ e)
        in if ip = [] \<and> fp = [] then NaN else Num (if neg then - v else v))"





section \<open>Device storage, network and dialogs\<close>

text \<open>AsyncStorage is a key-value store of strings; reads and writes are taken to succeed.\<close>

type_synonym storage = "string \<rightharpoonup> string"

definition getItem :: "storage \<Rightarrow> string \<Rightarrow> string option" where
  "getItem store k = store k"

definition setItem :: "storage \<Rightarrow> string \<Rightarrow> string \<Rightarrow> storage" where
  "setItem store k v = store(k \<mapsto> v)"

definition clear :: "storage \<Rightarrow> storage" where
  "clear store = Map.empty"

text \<open>
  A rejected promise carries an error; \<open>error.response?.data?.detail\<close> is read through
  three optional levels. The detail is taken to be a string when it is there.
\<close>

datatype error_data = ErrorData (detail: "string option")
datatype error_response = ErrorResponse (data: "error_data option")
datatype js_error = JsError (response: "error_response option")

datatype 'a outcome = Resolved 'a | Rejected js_error

definition detail_of :: "js_error \<Rightarrow> string option" where
  "detail_of e = (case response e of
       None \<Rightarrow> None
     | Some r \<Rightarrow> (case data r of None \<Rightarrow> None | Some d \<Rightarrow> detail d))"

text \<open>\<open>v || fallback\<close> on an optional string.\<close>

definition or_else :: "string option \<Rightarrow> string \<Rightarrow> string" where
  "or_else v fallback = (if truthy v then the v else fallback)"

text \<open>
  Request bodies are the object literals of the source. A URL is written without the
  \<open>BACKEND_URL\<close> prefix that every request shares.
\<close>

datatype json = JNull | JBool bool | JNum number | JStr string | JObj "(string \<times> json) list"

datatype form_part = Field string | FilePart string string string

datatype request =
    Get string
  | Post string json
  | PostForm string "(string \<times> form_part) list"

text \<open>
  What a handler does besides changing component state, in program order. The third
  argument of \<open>Alert\<close> lists the labels of the buttons passed to \<open>Alert.alert\<close>.
\<close>

datatype effect =
    Request request
  | Alert string string "string list"
  | Replace string
  | ConsoleError string

fun requests :: "effect list \<Rightarrow> request list" where
  "requests [] = []"
| "requests (Request r # es) = r # requests es"
| "requests (e # es) = requests es"

fun alerts :: "effect list \<Rightarrow> (string \<times> string) list" where
  "alerts [] = []"
| "alerts (Alert t m bs # es) = (t, m) # alerts es"
| "alerts (e # es) = alerts es"

fun navigations :: "effect list \<Rightarrow> string list" where
  "navigations [] = []"
| "navigations (Replace r # es) = r # navigations es"
| "navigations (e # es) = navigations es"

section \<open>Registration screen\<close>

record RegisterScreen =
  name :: string
  email :: string
  age :: string
  gender :: string
  height :: string
  weight :: string
  loading :: bool

definition RegisterScreen_init :: RegisterScreen where
  "RegisterScreen_init = \<lparr>name = [], email = [], age = [], gender = ''Male'',
     height = [], weight = [], loading = False\<rparr>"

record created_user =
  user_id :: string
  name :: string

definition register_body :: "RegisterScreen \<Rightarrow> (string \<times> json) list" where
  "register_body s =
     [(''name'', JStr (RegisterScreen.name s)),
      (''email'', JStr (email s)),
      (''age'', JNum (parseInt (age s))),
      (''gender'', JStr (gender s)),
      (''height'', JNum (parseFloat (height s))),
      (''weight'', if weight s \<noteq> [] then JNum (parseFloat (weight s)) else JNull)]"

definition handleRegister ::
  "RegisterScreen \<Rightarrow> storage \<Rightarrow> created_user option outcome \<Rightarrow>
     RegisterScreen \<times> storage \<times> effect list" where
  "handleRegister s store out =
     (if RegisterScreen.name s = [] \<or> email s = [] \<or> age s = [] \<or> height s = [] then
        (s, store, [Alert ''Error'' ''Please fill in all required fields'' []])
      else
        let req = Request (Post ''/api/users'' (JObj (register_body s)));
            s' = s\<lparr>RegisterScreen.loading := False\<rparr>
        in case out of
             Resolved d \<Rightarrow>
               (case d of
                  Some u \<Rightarrow>
                    (s', setItem (setItem store ''user_id'' (user_id u)) ''user_name'' (created_user.name u),
                     [req, Alert ''Success'' ''Registration successful!'' [], Replace ''/(tabs)/home''])
                | None \<Rightarrow> (s', store, [req]))
           | Rejected e \<Rightarrow>
               (s', store,
                [req, ConsoleError ''Registration error:'',
                 Alert ''Error'' (or_else (detail_of e) ''Registration failed'') []]))"

definition checkExistingUser :: "storage \<Rightarrow> effect list" where
  "checkExistingUser store =
     (if truthy (getItem store ''user_id'') then [Replace ''/(tabs)/home''] else [])"

section \<open>Daily log screen\<close>

datatype PortionSize = Very_Small | Small | Medium | Large | Very_Large

datatype WaterIntake = Less_than_1_L | From_1_to_2_L | From_2_to_3_L | More_than_3_L

fun portion_text :: "PortionSize \<Rightarrow> string" where
  "portion_text Very_Small = ''Very Small''"
| "portion_text Small = ''Small''"
| "portion_text Medium = ''Medium''"
| "portion_text Large = ''Large''"
| "portion_text Very_Large = ''Very Large''"

fun water_text :: "WaterIntake \<Rightarrow> string" where
  "water_text Less_than_1_L = ''Less than 1 L''"
| "water_text From_1_to_2_L = ''1-2 L''"
| "water_text From_2_to_3_L = ''2-3 L''"
| "water_text More_than_3_L = ''More than 3 L''"

record DailyLogScreen =
  loading :: bool
  breakfastFood :: string
  breakfastPortion :: PortionSize
  breakfastTime :: string
  lunchFood :: string
  lunchPortion :: PortionSize
  lunchVegetables :: bool
  lunchProtein :: bool
  lunchFried :: bool
  lunchDessert :: bool
  dinnerFood :: string
  dinnerPortion :: PortionSize
  dinnerTime :: string
  dinnerAfter9 :: bool
  hadSnacks :: bool
  snacksDetail :: string
  beverages :: string
  waterIntake :: WaterIntake

text \<open>The arguments of the \<open>useState\<close> calls: the defaults of the form.\<close>

definition DailyLogScreen_init :: DailyLogScreen where
  "DailyLogScreen_init =
     \<lparr>loading = False,
      breakfastFood = [], breakfastPortion = Medium, breakfastTime = [],
      lunchFood = [], lunchPortion = Medium, lunchVegetables = False, lunchProtein = False,
      lunchFried = False, lunchDessert = False,
      dinnerFood = [], dinnerPortion = Medium, dinnerTime = [], dinnerAfter9 = False,
      hadSnacks = False, snacksDetail = [], beverages = ''None'',
      waterIntake = From_1_to_2_L\<rparr>"

definition logData :: "DailyLogScreen \<Rightarrow> string \<Rightarrow> string \<Rightarrow> json" where
  "logData s userId today =
     JObj [(''user_id'', JStr userId),
           (''log_date'', JStr today),
           (''breakfast'', JObj [(''food'', JStr (breakfastFood s)),
                                 (''portion'', JStr (portion_text (breakfastPortion s))),
                                 (''time'', JStr (breakfastTime s))]),
           (''lunch'', JObj [(''food'', JStr (lunchFood s)),
                             (''portion'', JStr (portion_text (lunchPortion s))),
                             (''vegetables'', JBool (lunchVegetables s)),
                             (''protein'', JBool (lunchProtein s)),
                             (''fried'', JBool (lunchFried s)),
                             (''dessert'', JBool (lunchDessert s))]),
           (''dinner'', JObj [(''food'', JStr (dinnerFood s)),
                              (''portion'', JStr (portion_text (dinnerPortion s))),
                              (''time'', JStr (dinnerTime s)),
                              (''after_9pm'', JBool (dinnerAfter9 s))]),
           (''snacks'', JObj [(''had_snacks'', JBool (hadSnacks s)),
                              (''details'', JStr (snacksDetail s)),
                              (''beverages'', JStr (beverages s))]),
           (''water_intake'', JStr (water_text (waterIntake s)))]"

text \<open>
  \<open>handleSubmit\<close>; \<open>today\<close> is \<open>format(new Date(), 'yyyy-MM-dd')\<close> and \<open>out\<close> is how the
  POST ends. The \<open>finally\<close> block also runs on the early return inside \<open>try\<close>.
\<close>

definition handleSubmit ::
  "DailyLogScreen \<Rightarrow> storage \<Rightarrow> string \<Rightarrow> unit outcome \<Rightarrow> DailyLogScreen \<times> effect list" where
  "handleSubmit s store today out =
     (if breakfastFood s = [] \<or> lunchFood s = [] \<or> dinnerFood s = [] then
        (s, [Alert ''Incomplete'' ''Please fill in all meal details'' []])
      else
        let s' = s\<lparr>DailyLogScreen.loading := False\<rparr> in
        if \<not> truthy (getItem store ''user_id'') then
          (s', [Alert ''Error'' ''User not found. Please login again.'' []])
        else
          let req = Request (Post ''/api/daily-logs''
                      (logData s (the (getItem store ''user_id'')) today))
          in case out of
               Resolved _ \<Rightarrow>
                 (s', [req, Alert ''Success'' ''Daily log saved successfully!'' [''OK'']])
             | Rejected e \<Rightarrow>
                 (s', [req, ConsoleError ''Submit error:'',
                       Alert ''Error'' (or_else (detail_of e) ''Failed to save log'') []]))"

text \<open>The \<open>onPress\<close> callback of the OK button of the success dialog (\<open>// Reset form\<close>).\<close>

definition onPress_OK :: "DailyLogScreen \<Rightarrow> DailyLogScreen" where
  "onPress_OK s =
     s\<lparr>breakfastFood := [], lunchFood := [], dinnerFood := [],
       breakfastTime := [], dinnerTime := [], snacksDetail := [],
       hadSnacks := False, lunchVegetables := False, lunchProtein := False,
       lunchFried := False, lunchDessert := False, dinnerAfter9 := False\<rparr>"

text \<open>
  A submission that succeeds and is confirmed: \<open>handleSubmit\<close>, then the OK button when
  the success dialog offers it.
\<close>

definition submit_and_confirm ::
  "DailyLogScreen \<Rightarrow> storage \<Rightarrow> string \<Rightarrow> unit outcome \<Rightarrow> DailyLogScreen" where
  "submit_and_confirm s store today out =
     (let (s', es) = handleSubmit s store today out
      in if Alert ''Success'' ''Daily log saved successfully!'' [''OK''] \<in> set es
         then onPress_OK s' else s')"

section \<open>Reports screen\<close>

record file_asset =
  uri :: string
  name :: string
  size :: nat

record report =
  report_id :: string
  upload_date :: string
  extracted_text :: string
  ai_analysis :: "string option"

record ReportsScreen =
  userId :: string
  reports :: "report list"
  loading :: bool
  uploading :: bool
  analyzing :: bool
  hfApiKey :: string
  showApiKeyInput :: bool
  selectedFile :: "file_asset option"
  selectedReportForAnalysis :: "string option"

definition ReportsScreen_init :: ReportsScreen where
  "ReportsScreen_init =
     \<lparr>userId = [], reports = [], loading = False, uploading = False, analyzing = False,
      hfApiKey = [], showApiKeyInput = False, selectedFile = None,
      selectedReportForAnalysis = None\<rparr>"

definition loadReports ::
  "ReportsScreen \<Rightarrow> storage \<Rightarrow> report list outcome \<Rightarrow> ReportsScreen \<times> effect list" where
  "loadReports s store out =
     (if truthy (getItem store ''user_id'') then
        let id = the (getItem store ''user_id'');
            req = Request (Get (''/api/health-reports/'' @ id));
            s' = s\<lparr>userId := id, ReportsScreen.loading := False\<rparr>
        in case out of
             Resolved d \<Rightarrow> (s'\<lparr>reports := d\<rparr>, [req])
           | Rejected e \<Rightarrow> (s', [req, ConsoleError ''Error loading reports:''])
      else (s, []))"

text \<open>The result of the document picker: the \<open>canceled\<close> flag and the optional assets.\<close>

datatype picker_result = PickerResult (canceled: bool) (assets: "file_asset list option")

definition pickDocument ::
  "ReportsScreen \<Rightarrow> picker_result outcome \<Rightarrow> ReportsScreen \<times> effect list" where
  "pickDocument s out =
     (case out of
        Resolved r \<Rightarrow>
          (case assets r of
             Some (a # as) \<Rightarrow>
               if \<not> canceled r then
                 (s\<lparr>selectedFile := Some a\<rparr>,
                  [Alert ''File Selected'' (''Selected: '' @ file_asset.name a) []])
               else (s, [])
           | _ \<Rightarrow> (s, []))
      | Rejected e \<Rightarrow>
          (s, [ConsoleError ''Error picking document:'',
               Alert ''Error'' ''Failed to pick document'' []]))"

text \<open>
  \<open>uploadReport\<close>; \<open>rd\<close> is how reading the file as base64 ends, \<open>out\<close> how the POST ends
  and \<open>reload\<close> how the GET of the list refresh ends.
\<close>

definition uploadReport ::
  "ReportsScreen \<Rightarrow> storage \<Rightarrow> string outcome \<Rightarrow> unit outcome \<Rightarrow> report list outcome \<Rightarrow>
     ReportsScreen \<times> effect list" where
  "uploadReport s store rd out reload =
     (case selectedFile s of
        None \<Rightarrow> (s, [Alert ''No File'' ''Please select a PDF file first'' []])
      | Some f \<Rightarrow>
         (let failed = (\<lambda>e. [ConsoleError ''Upload error:'',
                              Alert ''Error'' (or_else (detail_of e) ''Failed to upload report'') []]);
              req = Request (PostForm ''/api/health-reports/upload''
                      [(''user_id'', Field (userId s)),
                       (''file'', FilePart (uri f) ''application/pdf'' (file_asset.name f))])
          in case rd of
               Rejected e \<Rightarrow> (s\<lparr>uploading := False\<rparr>, failed e)
             | Resolved base64 \<Rightarrow>
                 (case out of
                    Rejected e \<Rightarrow> (s\<lparr>uploading := False\<rparr>, req # failed e)
                  | Resolved _ \<Rightarrow>
                      let (s1, es) = loadReports (s\<lparr>selectedFile := None\<rparr>) store reload
                      in (s1\<lparr>uploading := False\<rparr>,
                          [req, Alert ''Success'' ''Report uploaded successfully!'' []] @ es))))"

definition analyzeReport ::
  "ReportsScreen \<Rightarrow> storage \<Rightarrow> string \<Rightarrow> unit outcome \<Rightarrow> report list outcome \<Rightarrow>
     ReportsScreen \<times> effect list" where
  "analyzeReport s store reportId out reload =
     (if hfApiKey s = [] then
        (s\<lparr>selectedReportForAnalysis := Some reportId, showApiKeyInput := True\<rparr>, [])
      else
        let req = Request (Post ''/api/health-reports/analyze''
                    (JObj [(''report_id'', JStr reportId), (''hf_api_key'', JStr (hfApiKey s))]))
        in case out of
             Resolved _ \<Rightarrow>
               let (s1, es) = loadReports s store reload
               in (s1\<lparr>analyzing := False\<rparr>,
                   [req, Alert ''Success'' ''Report analyzed successfully!'' []] @ es)
           | Rejected e \<Rightarrow>
               (s\<lparr>analyzing := False\<rparr>,
                [req, ConsoleError ''Analysis error:'',
                 Alert ''Error'' (or_else (detail_of e) ''Failed to analyze report'') []]))"

definition submitApiKeyAndAnalyze ::
  "ReportsScreen \<Rightarrow> storage \<Rightarrow> unit outcome \<Rightarrow> report list outcome \<Rightarrow>
     ReportsScreen \<times> effect list" where
  "submitApiKeyAndAnalyze s store out reload =
     (if trim (hfApiKey s) = [] then
        (s, [Alert ''Error'' ''Please enter your Hugging Face API key'' []])
      else if truthy (selectedReportForAnalysis s) then
        let (s1, es) = analyzeReport (s\<lparr>showApiKeyInput := False\<rparr>) store
                         (the (selectedReportForAnalysis s)) out reload
        in (s1\<lparr>selectedReportForAnalysis := None\<rparr>, es)
      else (s, []))"

text \<open>
  What the user and the platform can do on the reports screen. Each event carries the
  outcomes of the promises its handler awaits, and is paired with the storage at that time.
\<close>

datatype reports_event =
    Mount "report list outcome"
  | PressSelect "picker_result outcome"
  | PressRemoveFile
  | PressUpload "string outcome" "unit outcome" "report list outcome"
  | ChangeApiKeyText string
  | PressCancelApiKey
  | PressConfirmApiKey "unit outcome" "report list outcome"
  | PressAnalyze string "unit outcome" "report list outcome"

fun reports_step :: "storage \<Rightarrow> reports_event \<Rightarrow> ReportsScreen \<Rightarrow> ReportsScreen \<times> effect list" where
  "reports_step store (Mount reload) s = loadReports s store reload"
| "reports_step store (PressSelect r) s = pickDocument s r"
| "reports_step store PressRemoveFile s = (s\<lparr>selectedFile := None\<rparr>, [])"
| "reports_step store (PressUpload rd out reload) s = uploadReport s store rd out reload"
| "reports_step store (ChangeApiKeyText t) s = (s\<lparr>hfApiKey := t\<rparr>, [])"
| "reports_step store PressCancelApiKey s =
     (s\<lparr>showApiKeyInput := False, selectedReportForAnalysis := None\<rparr>, [])"
| "reports_step store (PressConfirmApiKey out reload) s = submitApiKeyAndAnalyze s store out reload"
| "reports_step store (PressAnalyze reportId out reload) s = analyzeReport s store reportId out reload"

fun reports_run ::
  "(storage \<times> reports_event) list \<Rightarrow> ReportsScreen \<Rightarrow> ReportsScreen \<times> effect list" where
  "reports_run [] s = (s, [])"
| "reports_run ((store, ev) # evs) s =
     (let (s1, es1) = reports_step store ev s; (s2, es2) = reports_run evs s1
      in (s2, es1 @ es2))"

section \<open>Workout screen\<close>

record exercise =
  exercise_id :: "string option"
  name :: string
  description :: string

record workout_plan =
  plan_id :: string
  plan_date :: string
  recommendations :: string
  exercises :: "exercise list"

record WorkoutScreen =
  loading :: bool
  generating :: bool
  workoutPlans :: "workout_plan list"
  hfApiKey :: string
  showApiKeyInput :: bool

definition WorkoutScreen_init :: WorkoutScreen where
  "WorkoutScreen_init =
     \<lparr>loading = False, generating = False, workoutPlans = [], hfApiKey = [],
      showApiKeyInput = False\<rparr>"

definition loadWorkoutPlans ::
  "WorkoutScreen \<Rightarrow> storage \<Rightarrow> workout_plan list outcome \<Rightarrow> WorkoutScreen \<times> effect list" where
  "loadWorkoutPlans s store out =
     (if truthy (getItem store ''user_id'') then
        let userId = the (getItem store ''user_id'');
            req = Request (Get (''/api/workout-plans/'' @ userId));
            s' = s\<lparr>WorkoutScreen.loading := False\<rparr>
        in case out of
             Resolved d \<Rightarrow> (s'\<lparr>workoutPlans := d\<rparr>, [req])
           | Rejected e \<Rightarrow> (s', [req, ConsoleError ''Error loading plans:''])
      else (s, []))"

definition generateWorkoutPlan ::
  "WorkoutScreen \<Rightarrow> storage \<Rightarrow> unit outcome \<Rightarrow> workout_plan list outcome \<Rightarrow>
     WorkoutScreen \<times> effect list" where
  "generateWorkoutPlan s store out reload =
     (if WorkoutScreen.hfApiKey s = [] then
        (s\<lparr>WorkoutScreen.showApiKeyInput := True\<rparr>, [])
      else if \<not> truthy (getItem store ''user_id'') then
        (s, [Alert ''Error'' ''User not found'' []])
      else
        let userId = the (getItem store ''user_id'');
            req = Request (PostForm ''/api/workout-plans/generate''
                    [(''user_id'', Field userId),
                     (''hf_api_key'', Field (WorkoutScreen.hfApiKey s))])
        in case out of
             Resolved _ \<Rightarrow>
               let (s1, es) = loadWorkoutPlans s store reload
               in (s1\<lparr>generating := False\<rparr>,
                   [req, Alert ''Success'' ''New workout plan generated!'' []] @ es)
           | Rejected e \<Rightarrow>
               (s\<lparr>generating := False\<rparr>,
                [req, ConsoleError ''Generation error:'',
                 Alert ''Error'' (or_else (detail_of e) ''Failed to generate plan'') []]))"

definition submitApiKeyAndGenerate ::
  "WorkoutScreen \<Rightarrow> storage \<Rightarrow> unit outcome \<Rightarrow> workout_plan list outcome \<Rightarrow>
     WorkoutScreen \<times> effect list" where
  "submitApiKeyAndGenerate s store out reload =
     (if trim (WorkoutScreen.hfApiKey s) = [] then
        (s, [Alert ''Error'' ''Please enter your Hugging Face API key'' []])
      else generateWorkoutPlan (s\<lparr>WorkoutScreen.showApiKeyInput := False\<rparr>) store out reload)"

datatype workout_event =
    MountPlans "workout_plan list outcome"
  | PressGenerate "unit outcome" "workout_plan list outcome"
  | ChangeKeyText string
  | PressCancelKey
  | PressConfirmKey "unit outcome" "workout_plan list outcome"

fun workout_step :: "storage \<Rightarrow> workout_event \<Rightarrow> WorkoutScreen \<Rightarrow> WorkoutScreen \<times> effect list" where
  "workout_step store (MountPlans reload) s = loadWorkoutPlans s store reload"
| "workout_step store (PressGenerate out reload) s = generateWorkoutPlan s store out reload"
| "workout_step store (ChangeKeyText t) s = (s\<lparr>WorkoutScreen.hfApiKey := t\<rparr>, [])"
| "workout_step store PressCancelKey s = (s\<lparr>WorkoutScreen.showApiKeyInput := False\<rparr>, [])"
| "workout_step store (PressConfirmKey out reload) s = submitApiKeyAndGenerate s store out reload"

fun workout_run ::
  "(storage \<times> workout_event) list \<Rightarrow> WorkoutScreen \<Rightarrow> WorkoutScreen \<times> effect list" where
  "workout_run [] s = (s, [])"
| "workout_run ((store, ev) # evs) s =
     (let (s1, es1) = workout_step store ev s; (s2, es2) = workout_run evs s1
      in (s2, es1 @ es2))"

text \<open>The credential a request carries, when the request goes to a credential-gated endpoint.\<close>

fun credential :: "request \<Rightarrow> string option" where
  "credential (Post url (JObj kvs)) =
     (if url = ''/api/health-reports/analyze''
      then (case map_of kvs ''hf_api_key'' of Some (JStr k) \<Rightarrow> Some k | _ \<Rightarrow> Some [])
      else None)"
| "credential (PostForm url ps) =
     (if url = ''/api/workout-plans/generate''
      then (case map_of ps ''hf_api_key'' of Some (Field k) \<Rightarrow> Some k | _ \<Rightarrow> Some [])
      else None)"
| "credential (Post url b) = (if url = ''/api/health-reports/analyze'' then Some [] else None)"
| "credential (Get url) = None"

section \<open>Profile screen\<close>

text \<open>The user record as fetched; a field that is \<open>null\<close> or missing is \<open>None\<close>.\<close>

record user =
  name :: string
  email :: string
  age :: "rat option"
  gender :: string
  height :: "rat option"
  weight :: "rat option"

record ProfileScreen =
  user :: "user option"

definition loadUserProfile ::
  "ProfileScreen \<Rightarrow> storage \<Rightarrow> user outcome \<Rightarrow> ProfileScreen \<times> effect list" where
  "loadUserProfile s store out =
     (if truthy (getItem store ''user_id'') then
        let userId = the (getItem store ''user_id'');
            req = Request (Get (''/api/users/'' @ userId))
        in case out of
             Resolved d \<Rightarrow> (s\<lparr>user := Some d\<rparr>, [req])
           | Rejected e \<Rightarrow> (s, [req, ConsoleError ''Error loading profile:''])
      else (s, []))"

text \<open>
  \<open>handleLogout\<close> shows a dialog with two buttons; \<open>pressed\<close> is the button the user
  chooses, \<open>None\<close> when the dialog is dismissed without a choice.
\<close>

datatype logout_button = Cancel | Logout

definition handleLogout :: "logout_button option \<Rightarrow> storage \<Rightarrow> storage \<times> effect list" where
  "handleLogout pressed store =
     (let dialog = Alert ''Logout'' ''Are you sure you want to logout?'' [''Cancel'', ''Logout'']
      in case pressed of
           Some Logout \<Rightarrow> (clear store, [dialog, Replace ''/''])
         | _ \<Rightarrow> (store, [dialog]))"







section \<open>Home screen\<close>

record HomeScreen =
  userName :: string
  userId :: string
  latestReport :: "report option"
  recentLogs :: "json list"
  refreshing :: bool

definition loadDashboardData ::
  "HomeScreen \<Rightarrow> string \<Rightarrow> report list outcome \<Rightarrow> json list option outcome \<Rightarrow>
     HomeScreen \<times> effect list" where
  "loadDashboardData s uid reportsRes logsRes =
     (let req1 = Request (Get (''/api/health-reports/'' @ uid));
          req2 = Request (Get (''/api/daily-logs/'' @ uid @ ''?limit=3''));
          failed = ConsoleError ''Error loading dashboard:''
      in case reportsRes of
           Rejected e \<Rightarrow> (s, [req1, failed])
         | Resolved rs \<Rightarrow>
             let s1 = (case rs of r # _ \<Rightarrow> s\<lparr>latestReport := Some r\<rparr> | [] \<Rightarrow> s)
             in (case logsRes of
                   Rejected e \<Rightarrow> (s1, [req1, req2, failed])
                 | Resolved ls \<Rightarrow>
                     (case ls of Some l \<Rightarrow> (s1\<lparr>recentLogs := l\<rparr>, [req1, req2])
                               | None \<Rightarrow> (s1, [req1, req2]))))"

definition loadUserData ::
  "HomeScreen \<Rightarrow> storage \<Rightarrow> report list outcome \<Rightarrow> json list option outcome \<Rightarrow>
     HomeScreen \<times> effect list" where
  "loadUserData s store reportsRes logsRes =
     (let s1 = (if truthy (getItem store ''user_name'')
                then s\<lparr>userName := the (getItem store ''user_name'')\<rparr> else s)
      in if truthy (getItem store ''user_id'')
         then loadDashboardData (s1\<lparr>HomeScreen.userId := the (getItem store ''user_id'')\<rparr>)
                (the (getItem store ''user_id'')) reportsRes logsRes
         else (s1, []))"

section \<open>Auxiliary facts\<close>

lemma requests_append: "requests (xs @ ys) = requests xs @ requests ys"
  by (induction xs rule: requests.induct) simp_all

lemma alerts_append: "alerts (xs @ ys) = alerts xs @ alerts ys"
  by (induction xs rule: alerts.induct) simp_all

lemma or_else_cases:
  "or_else v fb = (case v of None \<Rightarrow> fb | Some d \<Rightarrow> if d \<noteq> [] then d else fb)"
  by (simp add: or_else_def truthy_def split: option.splits)


section \<open>Registration: required fields\<close>

text \<open>
  Claim C6. A registration submission in which name, email, age or height is the empty
  string issues no request and shows the dialog titled Error; when the four required
  fields are filled the POST to \<open>/api/users\<close> is issued whatever the weight and gender
  fields hold, the empty string included.
\<close>

theorem handleRegister_required_fields:
  "(RegisterScreen.name s = [] \<or> RegisterScreen.email s = [] \<or> RegisterScreen.age s = []
      \<or> RegisterScreen.height s = [] \<longrightarrow>
      requests (snd (snd (handleRegister s store out))) = [] \<and>
      alerts (snd (snd (handleRegister s store out))) =
        [(''Error'', ''Please fill in all required fields'')])
   \<and> (RegisterScreen.name s \<noteq> [] \<and> RegisterScreen.email s \<noteq> [] \<and> RegisterScreen.age s \<noteq> []
      \<and> RegisterScreen.height s \<noteq> [] \<longrightarrow>
      requests (snd (snd (handleRegister s store out))) =
        [Post ''/api/users'' (JObj (register_body s))])"
  by (simp add: handleRegister_def Let_def split: outcome.splits option.splits)

theorem handleRegister_required_fields_witness:
  "(RegisterScreen.email (RegisterScreen_init\<lparr>RegisterScreen.name := ''Ann''\<rparr>) = [] \<and>
    requests (snd (snd (handleRegister (RegisterScreen_init\<lparr>RegisterScreen.name := ''Ann''\<rparr>)
       Map.empty (Resolved None)))) = [])
   \<and> (RegisterScreen.weight (RegisterScreen_init\<lparr>RegisterScreen.name := ''Ann'',
          RegisterScreen.email := ''ann@example.com'', RegisterScreen.age := ''30'',
          RegisterScreen.gender := [], RegisterScreen.height := ''170''\<rparr>) = [] \<and>
    requests (snd (snd (handleRegister (RegisterScreen_init\<lparr>RegisterScreen.name := ''Ann'',
          RegisterScreen.email := ''ann@example.com'', RegisterScreen.age := ''30'',
          RegisterScreen.gender := [], RegisterScreen.height := ''170''\<rparr>)
       Map.empty (Resolved None)))) \<noteq> [])"
  using handleRegister_required_fields
      [of "RegisterScreen_init\<lparr>RegisterScreen.name := ''Ann''\<rparr>" Map.empty "Resolved None"]
    handleRegister_required_fields
      [of "RegisterScreen_init\<lparr>RegisterScreen.name := ''Ann'',
          RegisterScreen.email := ''ann@example.com'', RegisterScreen.age := ''30'',
          RegisterScreen.gender := [], RegisterScreen.height := ''170''\<rparr>" Map.empty "Resolved None"]
  by (simp add: RegisterScreen_init_def)

section \<open>Daily log: meal fields\<close>

text \<open>
  Claim C7. A daily-log submission in which the breakfast, lunch or dinner text is the
  empty string issues no request, shows the dialog titled Incomplete and leaves the whole
  form state as it was.
\<close>

theorem handleSubmit_incomplete:
  "breakfastFood s = [] \<or> lunchFood s = [] \<or> dinnerFood s = [] \<Longrightarrow>
     fst (handleSubmit s store today out) = s \<and>
     requests (snd (handleSubmit s store today out)) = [] \<and>
     alerts (snd (handleSubmit s store today out)) =
       [(''Incomplete'', ''Please fill in all meal details'')]"
  by (simp add: handleSubmit_def)

theorem handleSubmit_incomplete_witness:
  "lunchFood (DailyLogScreen_init\<lparr>breakfastFood := ''oats'', breakfastPortion := Large\<rparr>) = [] \<and>
   fst (handleSubmit (DailyLogScreen_init\<lparr>breakfastFood := ''oats'', breakfastPortion := Large\<rparr>)
          [''user_id'' \<mapsto> ''u1''] ''2025-01-01'' (Resolved ()))
     = DailyLogScreen_init\<lparr>breakfastFood := ''oats'', breakfastPortion := Large\<rparr> \<and>
   requests (snd (handleSubmit (DailyLogScreen_init\<lparr>breakfastFood := ''oats'', breakfastPortion := Large\<rparr>)
          [''user_id'' \<mapsto> ''u1''] ''2025-01-01'' (Resolved ()))) = []"
  using handleSubmit_incomplete
      [of "DailyLogScreen_init\<lparr>breakfastFood := ''oats'', breakfastPortion := Large\<rparr>"
          "[''user_id'' \<mapsto> ''u1'']" "''2025-01-01''" "Resolved ()"]
  by (simp add: DailyLogScreen_init_def)

section \<open>Daily log: the form after a confirmed submission\<close>

lemma onPress_OK_resets_text_and_toggles:
  "onPress_OK s =
     DailyLogScreen_init\<lparr>DailyLogScreen.loading := DailyLogScreen.loading s,
       breakfastPortion := breakfastPortion s, lunchPortion := lunchPortion s,
       dinnerPortion := dinnerPortion s, beverages := beverages s, waterIntake := waterIntake s\<rparr>"
  by (simp add: onPress_OK_def DailyLogScreen_init_def)

text \<open>
  Claim C1 says that after a successful, confirmed submission every field is back at its
  default, the portion selectors at Medium, the beverages at None and the water intake at
  1-2 L included. The callback under \<open>// Reset form\<close> calls the setters of the text fields
  and of the toggles only. Here a form with a Large breakfast, one cup of beverages and
  2-3 L of water is submitted: the POST is issued, the success dialog is shown, and after
  OK the three selectors still hold the submitted values, so the form is not the default
  form.
\<close>

theorem daily_log_reset_keeps_selectors:
  "snd (handleSubmit
      (DailyLogScreen_init\<lparr>breakfastFood := ''oats'', breakfastPortion := Large,
         lunchFood := ''rice'', dinnerFood := ''soup'', beverages := ''1 cup'',
         waterIntake := From_2_to_3_L\<rparr>)
      [''user_id'' \<mapsto> ''u1''] ''2025-01-01'' (Resolved ()))
     = [Request (Post ''/api/daily-logs''
          (logData (DailyLogScreen_init\<lparr>breakfastFood := ''oats'', breakfastPortion := Large,
             lunchFood := ''rice'', dinnerFood := ''soup'', beverages := ''1 cup'',
             waterIntake := From_2_to_3_L\<rparr>) ''u1'' ''2025-01-01'')),
        Alert ''Success'' ''Daily log saved successfully!'' [''OK'']]
   \<and> submit_and_confirm
      (DailyLogScreen_init\<lparr>breakfastFood := ''oats'', breakfastPortion := Large,
         lunchFood := ''rice'', dinnerFood := ''soup'', beverages := ''1 cup'',
         waterIntake := From_2_to_3_L\<rparr>)
      [''user_id'' \<mapsto> ''u1''] ''2025-01-01'' (Resolved ())
     = DailyLogScreen_init\<lparr>breakfastPortion := Large, beverages := ''1 cup'',
         waterIntake := From_2_to_3_L\<rparr>
   \<and> DailyLogScreen_init\<lparr>breakfastPortion := Large, beverages := ''1 cup'',
         waterIntake := From_2_to_3_L\<rparr> \<noteq> DailyLogScreen_init"
  by (simp add: submit_and_confirm_def handleSubmit_def onPress_OK_def DailyLogScreen_init_def
      truthy_def getItem_def Let_def)

section \<open>Profile: logout\<close>

text \<open>
  Claim C2 says that a confirmed logout removes the two keys \<open>user_id\<close> and \<open>user_name\<close>
  and leaves every other stored key as it was. The handler calls \<open>AsyncStorage.clear()\<close>:
  a third key does not survive.
\<close>

theorem logout_clears_other_keys_counterexample:
  "[''user_id'' \<mapsto> ''u1'', ''user_name'' \<mapsto> ''Ann'', ''theme'' \<mapsto> ''dark''] ''theme'' = Some ''dark''
   \<and> fst (handleLogout (Some Logout)
        [''user_id'' \<mapsto> ''u1'', ''user_name'' \<mapsto> ''Ann'', ''theme'' \<mapsto> ''dark'']) ''theme'' = None"
  by (simp add: handleLogout_def clear_def)

text \<open>
  Claim C2, amended. A confirmed logout empties the whole store, so that \<open>user_id\<close> and
  \<open>user_name\<close> are both gone, and then replaces the route by the registration entry
  screen \<open>/\<close>.
\<close>

theorem logout_clears_storage:
  "fst (handleLogout (Some Logout) store) = Map.empty
   \<and> getItem (fst (handleLogout (Some Logout) store)) ''user_id'' = None
   \<and> getItem (fst (handleLogout (Some Logout) store)) ''user_name'' = None
   \<and> snd (handleLogout (Some Logout) store) =
       [Alert ''Logout'' ''Are you sure you want to logout?'' [''Cancel'', ''Logout''], Replace ''/'']"
  by (simp add: handleLogout_def clear_def getItem_def)

section \<open>Operations without a stored identifier\<close>

text \<open>
  Claim C3 says that with no identifier in storage no operation issues a request, the user
  is sent back to registration, and the upload never carries an empty \<open>user_id\<close>. With an
  empty store the daily-log submit only shows a dialog and replaces no route; and the
  reports screen, mounted, given a picked file and asked to upload, posts the form with
  the empty \<open>user_id\<close> of its initial state.
\<close>

theorem missing_identifier_counterexample:
  "handleSubmit (DailyLogScreen_init\<lparr>breakfastFood := ''oats'', lunchFood := ''rice'',
        dinnerFood := ''soup''\<rparr>) Map.empty ''2025-01-01'' (Resolved ())
     = (DailyLogScreen_init\<lparr>breakfastFood := ''oats'', lunchFood := ''rice'',
        dinnerFood := ''soup''\<rparr>, [Alert ''Error'' ''User not found. Please login again.'' []])
   \<and> snd (reports_run
        [(Map.empty, Mount (Resolved [])),
         (Map.empty, PressSelect (Resolved (PickerResult False
            (Some [\<lparr>uri = ''file:///cache/lab.pdf'', file_asset.name = ''lab.pdf'', size = 2048\<rparr>])))),
         (Map.empty, PressUpload (Resolved ''JVBERi0='') (Resolved ()) (Resolved []))]
        ReportsScreen_init)
     = [Alert ''File Selected'' ''Selected: lab.pdf'' [],
        Request (PostForm ''/api/health-reports/upload''
          [(''user_id'', Field []),
           (''file'', FilePart ''file:///cache/lab.pdf'' ''application/pdf'' ''lab.pdf'')]),
        Alert ''Success'' ''Report uploaded successfully!'' []]"
  by (simp add: handleSubmit_def DailyLogScreen_init_def ReportsScreen_init_def loadReports_def
      pickDocument_def uploadReport_def truthy_def getItem_def Let_def)

text \<open>
  Claim C3, amended. With no identifier in storage the four fetches (home dashboard,
  report list, workout plans, profile) do nothing at all; the daily-log submit and the
  workout-plan generation issue no request and replace no route, and once their own
  local checks pass they show the dialog saying that the user was not found.
\<close>

theorem missing_identifier_no_request:
  "\<not> truthy (getItem store ''user_id'') \<Longrightarrow>
     loadUserData h store reportsRes logsRes =
       (if truthy (getItem store ''user_name'')
        then h\<lparr>userName := the (getItem store ''user_name'')\<rparr> else h, [])
     \<and> loadReports r store reload = (r, [])
     \<and> loadWorkoutPlans w store wreload = (w, [])
     \<and> loadUserProfile p store uout = (p, [])
     \<and> requests (snd (handleSubmit d store today out)) = []
     \<and> navigations (snd (handleSubmit d store today out)) = []
     \<and> (breakfastFood d \<noteq> [] \<and> lunchFood d \<noteq> [] \<and> dinnerFood d \<noteq> [] \<longrightarrow>
           snd (handleSubmit d store today out) =
             [Alert ''Error'' ''User not found. Please login again.'' []])
     \<and> requests (snd (generateWorkoutPlan w store out wreload)) = []
     \<and> navigations (snd (generateWorkoutPlan w store out wreload)) = []
     \<and> (WorkoutScreen.hfApiKey w \<noteq> [] \<longrightarrow>
           generateWorkoutPlan w store out wreload = (w, [Alert ''Error'' ''User not found'' []]))"
  by (simp add: loadUserData_def loadReports_def loadWorkoutPlans_def loadUserProfile_def
      handleSubmit_def generateWorkoutPlan_def Let_def)

theorem missing_identifier_no_request_witness:
  "\<not> truthy (getItem [''user_name'' \<mapsto> ''Ann''] ''user_id'')
   \<and> loadReports ReportsScreen_init [''user_name'' \<mapsto> ''Ann''] (Resolved []) = (ReportsScreen_init, [])
   \<and> snd (handleSubmit (DailyLogScreen_init\<lparr>breakfastFood := ''oats'', lunchFood := ''rice'',
        dinnerFood := ''soup''\<rparr>) [''user_name'' \<mapsto> ''Ann''] ''2025-01-01'' (Resolved ()))
       = [Alert ''Error'' ''User not found. Please login again.'' []]
   \<and> generateWorkoutPlan (WorkoutScreen_init\<lparr>WorkoutScreen.hfApiKey := ''hf_key''\<rparr>)
        [''user_name'' \<mapsto> ''Ann''] (Resolved ()) (Resolved [])
       = (WorkoutScreen_init\<lparr>WorkoutScreen.hfApiKey := ''hf_key''\<rparr>,
          [Alert ''Error'' ''User not found'' []])"
  using missing_identifier_no_request
      [of "[''user_name'' \<mapsto> ''Ann'']" _ _ _ ReportsScreen_init "Resolved []"
          "WorkoutScreen_init\<lparr>WorkoutScreen.hfApiKey := ''hf_key''\<rparr>" "Resolved []" _ _
          "DailyLogScreen_init\<lparr>breakfastFood := ''oats'', lunchFood := ''rice'',
             dinnerFood := ''soup''\<rparr>" "''2025-01-01''" "Resolved ()"]
  by (simp add: truthy_def getItem_def DailyLogScreen_init_def WorkoutScreen_init_def)

section \<open>The credential gate\<close>

lemma loadReports_credential:
  "loadReports s store out = (s', es) \<Longrightarrow> \<forall>r \<in> set (requests es). credential r = None"
  by (auto simp: loadReports_def Let_def split: outcome.splits if_splits)

lemma pickDocument_requests: "pickDocument s out = (s', es) \<Longrightarrow> requests es = []"
  by (auto simp: pickDocument_def split: outcome.splits option.splits list.splits if_splits)

lemma uploadReport_credential:
  "uploadReport s store rd out reload = (s', es) \<Longrightarrow> r \<in> set (requests es) \<Longrightarrow>
     credential r = None"
  by (auto simp: uploadReport_def Let_def requests_append
      split: option.splits outcome.splits if_splits prod.splits dest!: loadReports_credential)

lemma analyzeReport_credential:
  "analyzeReport s store reportId out reload = (s', es) \<Longrightarrow> r \<in> set (requests es) \<Longrightarrow>
     credential r \<noteq> Some []"
  by (auto simp: analyzeReport_def Let_def requests_append
      split: outcome.splits if_splits prod.splits dest!: loadReports_credential)

lemma submitApiKeyAndAnalyze_credential:
  "submitApiKeyAndAnalyze s store out reload = (s', es) \<Longrightarrow> r \<in> set (requests es) \<Longrightarrow>
     credential r \<noteq> Some []"
  by (auto simp: submitApiKeyAndAnalyze_def Let_def split: if_splits prod.splits
      dest: analyzeReport_credential)

lemma reports_step_credential:
  "reports_step store ev s = (s', es) \<Longrightarrow> r \<in> set (requests es) \<Longrightarrow> credential r \<noteq> Some []"
proof (cases ev)
  case (Mount x)
  assume "reports_step store ev s = (s', es)" "r \<in> set (requests es)"
  with Mount show ?thesis by (auto dest!: loadReports_credential)
next
  case (PressSelect x)
  assume "reports_step store ev s = (s', es)" "r \<in> set (requests es)"
  with PressSelect show ?thesis by (auto dest: pickDocument_requests)
next
  case (PressUpload rd out reload)
  assume "reports_step store ev s = (s', es)" "r \<in> set (requests es)"
  with PressUpload show ?thesis by (auto dest: uploadReport_credential)
next
  case (PressConfirmApiKey out reload)
  assume "reports_step store ev s = (s', es)" "r \<in> set (requests es)"
  with PressConfirmApiKey show ?thesis by (auto dest: submitApiKeyAndAnalyze_credential)
next
  case (PressAnalyze rid out reload)
  assume "reports_step store ev s = (s', es)" "r \<in> set (requests es)"
  with PressAnalyze show ?thesis by (auto dest: analyzeReport_credential)
qed auto

lemma reports_run_credential:
  "reports_run evs s = (s', es) \<Longrightarrow> r \<in> set (requests es) \<Longrightarrow> credential r \<noteq> Some []"
proof (induction evs arbitrary: s s' es)
  case Nil
  then show ?case by simp
next
  case (Cons e evs)
  obtain store ev where e: "e = (store, ev)" by (cases e)
  obtain s1 es1 where st: "reports_step store ev s = (s1, es1)" by (cases "reports_step store ev s")
  obtain s2 es2 where rn: "reports_run evs s1 = (s2, es2)" by (cases "reports_run evs s1")
  from Cons.prems(1) e st rn have es: "es = es1 @ es2" by simp
  with Cons.prems(2) have "r \<in> set (requests es1) \<or> r \<in> set (requests es2)"
    by (simp add: requests_append)
  then show ?case
  proof
    assume "r \<in> set (requests es1)"
    with st show ?thesis by (rule reports_step_credential)
  next
    assume "r \<in> set (requests es2)"
    with rn show ?thesis by (rule Cons.IH)
  qed
qed

lemma loadWorkoutPlans_credential:
  "loadWorkoutPlans s store out = (s', es) \<Longrightarrow> \<forall>r \<in> set (requests es). credential r = None"
  by (auto simp: loadWorkoutPlans_def Let_def split: outcome.splits if_splits)

lemma generateWorkoutPlan_credential:
  "generateWorkoutPlan s store out reload = (s', es) \<Longrightarrow> r \<in> set (requests es) \<Longrightarrow>
     credential r \<noteq> Some []"
  by (auto simp: generateWorkoutPlan_def Let_def requests_append
      split: outcome.splits if_splits prod.splits dest!: loadWorkoutPlans_credential)

lemma submitApiKeyAndGenerate_credential:
  "submitApiKeyAndGenerate s store out reload = (s', es) \<Longrightarrow> r \<in> set (requests es) \<Longrightarrow>
     credential r \<noteq> Some []"
  by (auto simp: submitApiKeyAndGenerate_def split: if_splits
      dest: generateWorkoutPlan_credential)

lemma workout_step_credential:
  "workout_step store ev s = (s', es) \<Longrightarrow> r \<in> set (requests es) \<Longrightarrow> credential r \<noteq> Some []"
  by (cases ev)
    (auto dest!: loadWorkoutPlans_credential dest: generateWorkoutPlan_credential
       submitApiKeyAndGenerate_credential)

lemma workout_run_credential:
  "workout_run evs s = (s', es) \<Longrightarrow> r \<in> set (requests es) \<Longrightarrow> credential r \<noteq> Some []"
proof (induction evs arbitrary: s s' es)
  case Nil
  then show ?case by simp
next
  case (Cons e evs)
  obtain store ev where e: "e = (store, ev)" by (cases e)
  obtain s1 es1 where st: "workout_step store ev s = (s1, es1)" by (cases "workout_step store ev s")
  obtain s2 es2 where rn: "workout_run evs s1 = (s2, es2)" by (cases "workout_run evs s1")
  from Cons.prems(1) e st rn have es: "es = es1 @ es2" by simp
  with Cons.prems(2) have "r \<in> set (requests es1) \<or> r \<in> set (requests es2)"
    by (simp add: requests_append)
  then show ?case
  proof
    assume "r \<in> set (requests es1)"
    with st show ?thesis by (rule workout_step_credential)
  next
    assume "r \<in> set (requests es2)"
    with rn show ?thesis by (rule Cons.IH)
  qed
qed

text \<open>
  Claim C4. Whatever the user does on the reports screen or on the workout screen, from
  any state of the screen, no request to \<open>/api/health-reports/analyze\<close> or to
  \<open>/api/workout-plans/generate\<close> carries an empty credential; and a trigger while the
  credential in memory is empty sends nothing and opens the credential prompt.
\<close>

theorem credential_gate:
  "(\<forall>r \<in> set (requests (snd (reports_run evs s))). credential r \<noteq> Some [])
   \<and> (\<forall>r \<in> set (requests (snd (workout_run wevs w))). credential r \<noteq> Some [])
   \<and> (ReportsScreen.hfApiKey s = [] \<longrightarrow>
        analyzeReport s store reportId out reload =
          (s\<lparr>selectedReportForAnalysis := Some reportId, ReportsScreen.showApiKeyInput := True\<rparr>, []))
   \<and> (WorkoutScreen.hfApiKey w = [] \<longrightarrow>
        generateWorkoutPlan w store out wreload = (w\<lparr>WorkoutScreen.showApiKeyInput := True\<rparr>, []))"
proof (intro conjI ballI impI)
  fix r assume "r \<in> set (requests (snd (reports_run evs s)))"
  then show "credential r \<noteq> Some []"
    using reports_run_credential [of evs s "fst (reports_run evs s)" "snd (reports_run evs s)" r]
    by simp
next
  fix r assume "r \<in> set (requests (snd (workout_run wevs w)))"
  then show "credential r \<noteq> Some []"
    using workout_run_credential [of wevs w "fst (workout_run wevs w)" "snd (workout_run wevs w)" r]
    by simp
next
  assume "ReportsScreen.hfApiKey s = []"
  then show "analyzeReport s store reportId out reload =
      (s\<lparr>selectedReportForAnalysis := Some reportId, ReportsScreen.showApiKeyInput := True\<rparr>, [])"
    by (simp add: analyzeReport_def)
next
  assume "WorkoutScreen.hfApiKey w = []"
  then show "generateWorkoutPlan w store out wreload = (w\<lparr>WorkoutScreen.showApiKeyInput := True\<rparr>, [])"
    by (simp add: generateWorkoutPlan_def)
qed

theorem credential_gate_witness:
  "Post ''/api/health-reports/analyze'' (JObj [(''report_id'', JStr ''r1''), (''hf_api_key'', JStr ''hf_key'')])
     \<in> set (requests (snd (reports_run
        [(Map.empty, PressAnalyze ''r1'' (Resolved ()) (Resolved [])),
         (Map.empty, ChangeApiKeyText ''hf_key''),
         (Map.empty, PressConfirmApiKey (Resolved ()) (Resolved []))] ReportsScreen_init)))
   \<and> credential (Post ''/api/health-reports/analyze''
        (JObj [(''report_id'', JStr ''r1''), (''hf_api_key'', JStr ''hf_key'')])) \<noteq> Some []
   \<and> PostForm ''/api/workout-plans/generate'' [(''user_id'', Field ''u1''), (''hf_api_key'', Field ''hf_key'')]
     \<in> set (requests (snd (workout_run
        [([''user_id'' \<mapsto> ''u1''], PressGenerate (Resolved ()) (Resolved [])),
         ([''user_id'' \<mapsto> ''u1''], ChangeKeyText ''hf_key''),
         ([''user_id'' \<mapsto> ''u1''], PressConfirmKey (Resolved ()) (Resolved []))] WorkoutScreen_init)))
   \<and> credential (PostForm ''/api/workout-plans/generate''
        [(''user_id'', Field ''u1''), (''hf_api_key'', Field ''hf_key'')]) \<noteq> Some []
   \<and> ReportsScreen.hfApiKey ReportsScreen_init = []
   \<and> requests (snd (analyzeReport ReportsScreen_init [''user_id'' \<mapsto> ''u1''] ''r1''
        (Resolved ()) (Resolved []))) = []
   \<and> WorkoutScreen.hfApiKey WorkoutScreen_init = []
   \<and> requests (snd (generateWorkoutPlan WorkoutScreen_init [''user_id'' \<mapsto> ''u1''] (Resolved ()) (Resolved []))) = []"
  using credential_gate
      [of "[(Map.empty, PressAnalyze ''r1'' (Resolved ()) (Resolved [])),
         (Map.empty, ChangeApiKeyText ''hf_key''),
         (Map.empty, PressConfirmApiKey (Resolved ()) (Resolved []))]" ReportsScreen_init
         "[([''user_id'' \<mapsto> ''u1''], PressGenerate (Resolved ()) (Resolved [])),
         ([''user_id'' \<mapsto> ''u1''], ChangeKeyText ''hf_key''),
         ([''user_id'' \<mapsto> ''u1''], PressConfirmKey (Resolved ()) (Resolved []))]" WorkoutScreen_init
         "[''user_id'' \<mapsto> ''u1'']" "''r1''" "Resolved ()" "Resolved []" "Resolved []"]
  by (simp add: ReportsScreen_init_def WorkoutScreen_init_def analyzeReport_def
      submitApiKeyAndAnalyze_def loadReports_def generateWorkoutPlan_def submitApiKeyAndGenerate_def
      loadWorkoutPlans_def trim_def is_ws_def truthy_def getItem_def Let_def)

section \<open>Profile: body-mass index\<close>








section \<open>Error messages of failed requests\<close>

lemma detail_of_cases:
  "detail_of (JsError None) = None"
  "detail_of (JsError (Some (ErrorResponse None))) = None"
  "detail_of (JsError (Some (ErrorResponse (Some (ErrorData d))))) = d"
  by (simp_all add: detail_of_def)

text \<open>
  Claim C8 says that every failed request whose response carries a detail surfaces that
  detail, and every other failed request the fallback of its action. A detail that is the
  empty string is replaced by the fallback, and a failed fetch of the report list, whatever
  its detail, shows no dialog at all: it is only logged to the console.
\<close>

theorem error_detail_counterexample:
  "detail_of (JsError (Some (ErrorResponse (Some (ErrorData (Some [])))))) = Some []
   \<and> alerts (snd (handleSubmit
        (DailyLogScreen_init\<lparr>breakfastFood := ''oats'', lunchFood := ''rice'', dinnerFood := ''soup''\<rparr>)
        [''user_id'' \<mapsto> ''u1''] ''2025-01-01''
        (Rejected (JsError (Some (ErrorResponse (Some (ErrorData (Some [])))))))))
     = [(''Error'', ''Failed to save log'')]
   \<and> snd (loadReports ReportsScreen_init [''user_id'' \<mapsto> ''u1'']
        (Rejected (JsError (Some (ErrorResponse (Some (ErrorData (Some ''Server down''))))))))
     = [Request (Get ''/api/health-reports/u1''), ConsoleError ''Error loading reports:'']"
  by (simp add: handleSubmit_def DailyLogScreen_init_def ReportsScreen_init_def loadReports_def
      truthy_def getItem_def Let_def detail_of_def or_else_def)

text \<open>
  Claim C8, amended. For the five requests that change data (register, daily-log submit,
  report upload, report analysis, workout-plan generation): when the request fails with a
  response whose detail is a non-empty string, the dialog shows that detail; when it fails
  with no response, no data, no detail or an empty detail, the dialog shows the fixed
  fallback of the action. A failed fetch (report list, workout plans, profile, dashboard)
  shows no dialog.
\<close>

theorem error_message_surfaced:
  "(detail_of e = Some dt \<and> dt \<noteq> [] \<longrightarrow>
      (RegisterScreen.name g \<noteq> [] \<and> RegisterScreen.email g \<noteq> [] \<and> RegisterScreen.age g \<noteq> []
         \<and> RegisterScreen.height g \<noteq> [] \<longrightarrow>
         alerts (snd (snd (handleRegister g store (Rejected e)))) = [(''Error'', dt)])
    \<and> (breakfastFood d \<noteq> [] \<and> lunchFood d \<noteq> [] \<and> dinnerFood d \<noteq> []
         \<and> truthy (getItem store ''user_id'') \<longrightarrow>
         alerts (snd (handleSubmit d store today (Rejected e))) = [(''Error'', dt)])
    \<and> (selectedFile r \<noteq> None \<longrightarrow>
         alerts (snd (uploadReport r store (Resolved b64) (Rejected e) reload)) = [(''Error'', dt)])
    \<and> (ReportsScreen.hfApiKey r \<noteq> [] \<longrightarrow>
         alerts (snd (analyzeReport r store reportId (Rejected e) reload)) = [(''Error'', dt)])
    \<and> (WorkoutScreen.hfApiKey w \<noteq> [] \<and> truthy (getItem store ''user_id'') \<longrightarrow>
         alerts (snd (generateWorkoutPlan w store (Rejected e) wreload)) = [(''Error'', dt)]))
   \<and> (detail_of e = None \<or> detail_of e = Some [] \<longrightarrow>
      (RegisterScreen.name g \<noteq> [] \<and> RegisterScreen.email g \<noteq> [] \<and> RegisterScreen.age g \<noteq> []
         \<and> RegisterScreen.height g \<noteq> [] \<longrightarrow>
         alerts (snd (snd (handleRegister g store (Rejected e)))) =
           [(''Error'', ''Registration failed'')])
    \<and> (breakfastFood d \<noteq> [] \<and> lunchFood d \<noteq> [] \<and> dinnerFood d \<noteq> []
         \<and> truthy (getItem store ''user_id'') \<longrightarrow>
         alerts (snd (handleSubmit d store today (Rejected e))) =
           [(''Error'', ''Failed to save log'')])
    \<and> (selectedFile r \<noteq> None \<longrightarrow>
         alerts (snd (uploadReport r store (Resolved b64) (Rejected e) reload)) =
           [(''Error'', ''Failed to upload report'')])
    \<and> (ReportsScreen.hfApiKey r \<noteq> [] \<longrightarrow>
         alerts (snd (analyzeReport r store reportId (Rejected e) reload)) =
           [(''Error'', ''Failed to analyze report'')])
    \<and> (WorkoutScreen.hfApiKey w \<noteq> [] \<and> truthy (getItem store ''user_id'') \<longrightarrow>
         alerts (snd (generateWorkoutPlan w store (Rejected e) wreload)) =
           [(''Error'', ''Failed to generate plan'')]))
   \<and> alerts (snd (loadReports r store (Rejected e))) = []
   \<and> alerts (snd (loadWorkoutPlans w store (Rejected e))) = []
   \<and> alerts (snd (loadUserProfile p store (Rejected e))) = []
   \<and> alerts (snd (loadUserData h store (Rejected e) logsRes)) = []
   \<and> alerts (snd (loadUserData h store reportsRes (Rejected e))) = []"
proof (intro conjI impI)
  show "alerts (snd (loadUserData h store reportsRes (Rejected e))) = []"
    by (simp add: loadUserData_def loadDashboardData_def Let_def
        split: outcome.splits list.splits)
qed (auto simp: handleRegister_def handleSubmit_def uploadReport_def analyzeReport_def
       generateWorkoutPlan_def loadReports_def loadWorkoutPlans_def loadUserProfile_def
       loadUserData_def loadDashboardData_def or_else_cases Let_def)

theorem error_message_surfaced_witness:
  "detail_of (JsError (Some (ErrorResponse (Some (ErrorData (Some ''Email already registered'')))))) =
     Some ''Email already registered''
   \<and> alerts (snd (snd (handleRegister
        \<lparr>RegisterScreen.name = ''Ann'', email = ''ann@example.com'', age = ''30'', gender = ''Female'',
         height = ''170'', weight = [], loading = False\<rparr> Map.empty
        (Rejected (JsError (Some (ErrorResponse (Some (ErrorData (Some ''Email already registered''))))))))))
     = [(''Error'', ''Email already registered'')]
   \<and> detail_of (JsError None) = None
   \<and> alerts (snd (analyzeReport (ReportsScreen_init\<lparr>ReportsScreen.hfApiKey := ''hf_key''\<rparr>) Map.empty
        ''r1'' (Rejected (JsError None)) (Resolved [])))
     = [(''Error'', ''Failed to analyze report'')]"
  using error_message_surfaced
      [where e = "JsError (Some (ErrorResponse (Some (ErrorData (Some ''Email already registered'')))))"
         and dt = "''Email already registered''"
         and g = "\<lparr>RegisterScreen.name = ''Ann'', email = ''ann@example.com'', age = ''30'',
                   gender = ''Female'', height = ''170'', weight = [], loading = False\<rparr>"
         and store = Map.empty]
    error_message_surfaced
      [where e = "JsError None" and r = "ReportsScreen_init\<lparr>ReportsScreen.hfApiKey := ''hf_key''\<rparr>"
         and store = Map.empty and reportId = "''r1''" and reload = "Resolved []"]
  by (simp add: detail_of_def ReportsScreen_init_def)

section \<open>Registration: unparseable numbers\<close>




end
